theory Spec2Isabelle
  imports
    Complex_Main
    "HOL-Library.Char_ord"
    "HOL-Library.List_Lexorder"
    "HOL-Library.Product_Lexorder"
begin

section \<open>The echogram uploader of mi/dataset/driver/zplsc_c\<close>

text \<open>
  A shallow embedding of \<^verbatim>\<open>zplsc_echogram_uploader.py\<close>: the parser
  \<^verbatim>\<open>ZplscEchogramUploadParser\<close> with its three methods
  \<^verbatim>\<open>set_provenance_from_hourly_file\<close>,
  \<^verbatim>\<open>modify_provenance_for_echogram_type\<close> and
  \<^verbatim>\<open>get_first_ping_time_from_echogram\<close>, and \<^verbatim>\<open>parse_file\<close>,
  which calls them. Exceptions are values of the type \<open>error\<close>; the fields of the
  parser object and the netCDF handles are an explicit state; the directory listing, the
  netCDF files and the two functions of \<^verbatim>\<open>mi.core.time_tools\<close> are
  parameters (the record \<open>env\<close>). The sources are Python 2: strings are byte
  strings, compared lexicographically by byte value, and a float is an IEEE 754 double,
  whose addition rounds.
\<close>

subsection \<open>Exceptions\<close>

datatype type_error =
    Concat_Str_NoneType   \<comment> \<open>\<^verbatim>\<open>'OOI-D' + None\<close>\<close>
  | Strptime_NoneType     \<comment> \<open>\<^verbatim>\<open>datetime.strptime(None, fmt)\<close>\<close>

datatype error =
    SampleException string   \<comment> \<open>\<^verbatim>\<open>mi.core.exceptions.SampleException\<close>, with its message\<close>
  | TypeError type_error
  | ValueError               \<comment> \<open>raised by \<^verbatim>\<open>strptime\<close> and by \<^verbatim>\<open>string_to_ntp_date_time\<close>\<close>
  | OverflowError            \<comment> \<open>a date beyond \<^verbatim>\<open>datetime.min\<close> or \<^verbatim>\<open>datetime.max\<close>\<close>
  | OSError                  \<comment> \<open>\<^verbatim>\<open>os.listdir\<close> of a directory that cannot be listed\<close>
  | IOError                  \<comment> \<open>\<^verbatim>\<open>netCDF4.Dataset\<close> of a file that cannot be opened\<close>
  | KeyError string          \<comment> \<open>a missing group or variable\<close>
  | AttributeError string    \<comment> \<open>a missing attribute of a group\<close>
  | IndexError               \<comment> \<open>element 0 of an empty variable\<close>

subsection \<open>Python strings\<close>

definition is_digit :: "char \<Rightarrow> bool" where
  "is_digit c \<longleftrightarrow> CHR ''0'' \<le> c \<and> c \<le> CHR ''9''"

definition digit_val :: "char \<Rightarrow> nat" where
  "digit_val c = of_char c - 48"

text \<open>\<^verbatim>\<open>int(s)\<close> on a string of decimal digits.\<close>

definition nat_of_digits :: "string \<Rightarrow> nat" where
  "nat_of_digits s = foldl (\<lambda>n c. 10 * n + digit_val c) 0 s"

text \<open>\<^verbatim>\<open>s.rfind(c)\<close>: the index of the last occurrence, or -1.\<close>

definition py_rfind :: "char \<Rightarrow> string \<Rightarrow> int" where
  "py_rfind c s =
     (if c \<in> set s then int (length s) - 1 - int (length (takeWhile (\<lambda>x. x \<noteq> c) (rev s)))
      else - 1)"

text \<open>The slice \<^verbatim>\<open>s[:i]\<close>; a negative index counts from the end.\<close>

definition py_slice_to :: "string \<Rightarrow> int \<Rightarrow> string" where
  "py_slice_to s i = (if i < 0 then take (nat (int (length s) + i)) s else take (nat i) s)"

text \<open>The slice \<^verbatim>\<open>s[i:]\<close>.\<close>

definition py_slice_from :: "string \<Rightarrow> int \<Rightarrow> string" where
  "py_slice_from s i = (if i < 0 then drop (nat (int (length s) + i)) s else drop (nat i) s)"

definition rstrip_slash :: "string \<Rightarrow> string" where
  "rstrip_slash s = rev (dropWhile (\<lambda>c. c = CHR ''/'') (rev s))"

subsection \<open>posixpath\<close>

text \<open>
  \<^verbatim>\<open>
  def split(p):
      i = p.rfind('/') + 1
      head, tail = p[:i], p[i:]
      if head and head != '/'*len(head):
          head = head.rstrip('/')
      return head, tail
  \<close>
\<close>

definition os_path_split :: "string \<Rightarrow> string \<times> string" where
  "os_path_split p =
     (let i = py_rfind CHR ''/'' p + 1;
          head = py_slice_to p i;
          tail = py_slice_from p i
      in (if head \<noteq> [] \<and> head \<noteq> replicate (length head) CHR ''/''
          then rstrip_slash head else head, tail))"

text \<open>
  \<^verbatim>\<open>
  def splitext(p):
      sepIndex = p.rfind('/')
      dotIndex = p.rfind('.')
      if dotIndex > sepIndex:
          filenameIndex = sepIndex + 1
          while filenameIndex < dotIndex:
              if p[filenameIndex] != '.':
                  return p[:dotIndex], p[dotIndex:]
              filenameIndex += 1
      return p, ''
  \<close>
  The loop looks for a character other than a dot between the last separator and the
  last dot.
\<close>

fun splitext_loop :: "string \<Rightarrow> bool" where
  "splitext_loop [] = False"
| "splitext_loop (c # cs) = (if c \<noteq> CHR ''.'' then True else splitext_loop cs)"

definition os_path_splitext :: "string \<Rightarrow> string \<times> string" where
  "os_path_splitext p =
     (let sepIndex = py_rfind CHR ''/'' p;
          dotIndex = py_rfind CHR ''.'' p
      in if dotIndex > sepIndex \<and>
            splitext_loop (py_slice_to (py_slice_from p (sepIndex + 1)) (dotIndex - (sepIndex + 1)))
         then (py_slice_to p dotIndex, py_slice_from p dotIndex)
         else (p, []))"

text \<open>
  \<^verbatim>\<open>
  def join(a, *p):
      path = a
      for b in p:
          if b.startswith('/'):
              path = b
          elif path == '' or path.endswith('/'):
              path += b
          else:
              path += '/' + b
      return path
  \<close>
\<close>

definition join_step :: "string \<Rightarrow> string \<Rightarrow> string" where
  "join_step path b =
     (if b \<noteq> [] \<and> hd b = CHR ''/'' then b
      else if path = [] \<or> last path = CHR ''/'' then path @ b
      else path @ ''/'' @ b)"

definition os_path_join :: "string \<Rightarrow> string list \<Rightarrow> string" where
  "os_path_join a p = foldl join_step a p"

subsection \<open>Regular expressions\<close>

text \<open>
  The patterns that \<^verbatim>\<open>parse_file\<close> hands to \<^verbatim>\<open>re.match\<close> are
  built at run time, so they are strings here too, compiled by \<open>re_compile\<close>. It covers
  the syntax these patterns use: an ordinary character, the dot, an escaped dot and a
  digit class with a one-digit repetition count; anything else is refused.
  \<^verbatim>\<open>re.match\<close> anchors the pattern at the start of the string only.
\<close>

datatype re_tok = Lit char | AnyChar | Digits nat

definition strip_prefix :: "string \<Rightarrow> string \<Rightarrow> string option" where
  "strip_prefix p s = (if take (length p) s = p then Some (drop (length p) s) else None)"

definition take_digits :: "nat \<Rightarrow> string \<Rightarrow> (string \<times> string) option" where
  "take_digits n s =
     (if n \<le> length s \<and> list_all is_digit (take n s) then Some (take n s, drop n s) else None)"

function re_compile :: "string \<Rightarrow> re_tok list option" where
  "re_compile [] = Some []"
| "re_compile (c # cs) =
     (if c = CHR 0x5C then
        (case cs of
           [] \<Rightarrow> None
         | d # ds \<Rightarrow> if d = CHR ''.'' then map_option ((#) (Lit d)) (re_compile ds) else None)
      else if c = CHR ''['' then
        (case strip_prefix ''0-9]{'' cs of
           None \<Rightarrow> None
         | Some r \<Rightarrow>
             (case r of
                n # e # rest \<Rightarrow>
                  if is_digit n \<and> e = CHR ''}''
                  then map_option ((#) (Digits (digit_val n))) (re_compile rest) else None
              | _ \<Rightarrow> None))
      else if c = CHR ''.'' then map_option ((#) AnyChar) (re_compile cs)
      else if c \<in> set ''^$*+?{}]()|'' then None
      else map_option ((#) (Lit c)) (re_compile cs))"
  by pat_completeness auto
termination
  apply (relation "measure length")
     apply (auto simp: strip_prefix_def split: if_splits)
  subgoal premises p for cs n rest
    using arg_cong [OF p(3), of length] by simp
  done

fun re_toks_match :: "re_tok list \<Rightarrow> string \<Rightarrow> bool" where
  "re_toks_match [] s = True"
| "re_toks_match (Lit c # ts) s =
     (case s of [] \<Rightarrow> False | x # xs \<Rightarrow> x = c \<and> re_toks_match ts xs)"
| "re_toks_match (AnyChar # ts) s =
     (case s of [] \<Rightarrow> False | x # xs \<Rightarrow> x \<noteq> CHR 0x0A \<and> re_toks_match ts xs)"
| "re_toks_match (Digits n # ts) s =
     (n \<le> length s \<and> list_all is_digit (take n s) \<and> re_toks_match ts (drop n s))"

text \<open>\<^verbatim>\<open>re.match(pattern, s)\<close>, as a truth value.\<close>

definition re_match :: "string \<Rightarrow> string \<Rightarrow> bool" where
  "re_match pat s = (case re_compile pat of Some ts \<Rightarrow> re_toks_match ts s | None \<Rightarrow> False)"

subsection \<open>datetime\<close>

text \<open>
  A naive \<^verbatim>\<open>datetime\<close> (the microseconds are always 0 here). Python compares
  two of them field by field, from the year down to the second.
\<close>

record datetime =
  dt_year :: nat
  dt_month :: nat
  dt_day :: nat
  dt_hour :: nat
  dt_minute :: nat
  dt_second :: nat

definition dt_key :: "datetime \<Rightarrow> nat \<times> nat \<times> nat \<times> nat \<times> nat \<times> nat" where
  "dt_key t = (dt_year t, dt_month t, dt_day t, dt_hour t, dt_minute t, dt_second t)"

definition dt_le :: "datetime \<Rightarrow> datetime \<Rightarrow> bool" where
  "dt_le a b \<longleftrightarrow> dt_key a \<le> dt_key b"

definition dt_less :: "datetime \<Rightarrow> datetime \<Rightarrow> bool" where
  "dt_less a b \<longleftrightarrow> dt_key a < dt_key b"

definition is_leap :: "nat \<Rightarrow> bool" where
  "is_leap y \<longleftrightarrow> y mod 4 = 0 \<and> (y mod 100 \<noteq> 0 \<or> y mod 400 = 0)"

definition days_in_month :: "nat \<Rightarrow> nat \<Rightarrow> nat" where
  "days_in_month y m =
     (if m = 2 then (if is_leap y then 29 else 28)
      else if m = 4 \<or> m = 6 \<or> m = 9 \<or> m = 11 then 30 else 31)"

definition valid_date :: "nat \<Rightarrow> nat \<Rightarrow> nat \<Rightarrow> bool" where
  "valid_date y m d \<longleftrightarrow>
     1 \<le> y \<and> y \<le> 9999 \<and> 1 \<le> m \<and> m \<le> 12 \<and> 1 \<le> d \<and> d \<le> days_in_month y m"

definition valid_time :: "nat \<Rightarrow> nat \<Rightarrow> nat \<Rightarrow> bool" where
  "valid_time h mi s \<longleftrightarrow> h \<le> 23 \<and> mi \<le> 59 \<and> s \<le> 59"

text \<open>
  \<^verbatim>\<open>datetime.strptime(s, "%Y%m%d")\<close>. The argument is a capture of eight digits
  or \<^verbatim>\<open>None\<close>. On eight digits the format can only read four, two and two of
  them, and the three numbers must be a date of the calendar between the years 1 and
  9999; every failure is a \<^verbatim>\<open>ValueError\<close>.
\<close>

definition strptime_ymd :: "string option \<Rightarrow> error + datetime" where
  "strptime_ymd arg =
     (case arg of
        None \<Rightarrow> Inl (TypeError Strptime_NoneType)
      | Some s \<Rightarrow>
          if length s = 8 \<and> list_all is_digit s then
            (let y = nat_of_digits (take 4 s);
                 m = nat_of_digits (take 2 (drop 4 s));
                 d = nat_of_digits (drop 6 s)
             in if valid_date y m d
                then Inr \<lparr>dt_year = y, dt_month = m, dt_day = d,
                          dt_hour = 0, dt_minute = 0, dt_second = 0\<rparr>
                else Inl ValueError)
          else Inl ValueError)"

text \<open>
  \<^verbatim>\<open>datetime.strptime(f, HOURLY_FILENAME_DATE_FORMAT)\<close> with the format
  \<^verbatim>\<open>'OOI-D%Y%m%d-T%H%M%S.nc'\<close>. Every string that reaches it has passed
  \<^verbatim>\<open>re.match\<close> on a pattern that starts with the same literal text, eight
  digits, \<^verbatim>\<open>-T\<close>, six digits and \<^verbatim>\<open>.nc\<close>. It accepts the string when
  nothing follows and the fields are a date of the calendar and a time of the day (a
  second of 60 or 61 is read and then refused by the \<^verbatim>\<open>datetime\<close>
  constructor); every failure is a \<^verbatim>\<open>ValueError\<close>.
\<close>

definition strptime_hourly :: "string \<Rightarrow> error + datetime" where
  "strptime_hourly f =
     (case strip_prefix ''OOI-D'' f of
        None \<Rightarrow> Inl ValueError
      | Some r1 \<Rightarrow>
     (case take_digits 8 r1 of
        None \<Rightarrow> Inl ValueError
      | Some (ds, r2) \<Rightarrow>
     (case strip_prefix ''-T'' r2 of
        None \<Rightarrow> Inl ValueError
      | Some r3 \<Rightarrow>
     (case take_digits 6 r3 of
        None \<Rightarrow> Inl ValueError
      | Some (ts, r4) \<Rightarrow>
          if r4 = ''.nc'' then
            (let y = nat_of_digits (take 4 ds);
                 m = nat_of_digits (take 2 (drop 4 ds));
                 d = nat_of_digits (drop 6 ds);
                 h = nat_of_digits (take 2 ts);
                 mi = nat_of_digits (take 2 (drop 2 ts));
                 sec = nat_of_digits (drop 4 ts)
             in if valid_date y m d \<and> valid_time h mi sec
                then Inr \<lparr>dt_year = y, dt_month = m, dt_day = d,
                          dt_hour = h, dt_minute = mi, dt_second = sec\<rparr>
                else Inl ValueError)
          else Inl ValueError))))"

text \<open>
  \<^verbatim>\<open>t + timedelta(days=1)\<close> and \<^verbatim>\<open>t - timedelta(days=1)\<close>: the same time
  on the next and on the previous day of the calendar, and an
  \<^verbatim>\<open>OverflowError\<close> beyond 9999-12-31 and before 0001-01-01.
\<close>

definition dt_plus_one_day :: "datetime \<Rightarrow> error + datetime" where
  "dt_plus_one_day t =
     (if dt_day t < days_in_month (dt_year t) (dt_month t) then Inr (t\<lparr>dt_day := dt_day t + 1\<rparr>)
      else if dt_month t < 12 then Inr (t\<lparr>dt_month := dt_month t + 1, dt_day := 1\<rparr>)
      else if dt_year t < 9999 then Inr (t\<lparr>dt_year := dt_year t + 1, dt_month := 1, dt_day := 1\<rparr>)
      else Inl OverflowError)"

definition dt_minus_one_day :: "datetime \<Rightarrow> error + datetime" where
  "dt_minus_one_day t =
     (if 1 < dt_day t then Inr (t\<lparr>dt_day := dt_day t - 1\<rparr>)
      else if 1 < dt_month t
        then Inr (t\<lparr>dt_month := dt_month t - 1,
                    dt_day := days_in_month (dt_year t) (dt_month t - 1)\<rparr>)
      else if 1 < dt_year t then Inr (t\<lparr>dt_year := dt_year t - 1, dt_month := 12, dt_day := 31\<rparr>)
      else Inl OverflowError)"

text \<open>
  \<^verbatim>\<open>strftime\<close> with the conversions used here. The \<^verbatim>\<open>strftime\<close>
  of a Python 2 \<^verbatim>\<open>datetime\<close> refuses a year before 1900 with a
  \<^verbatim>\<open>ValueError\<close>, whatever the format; from 1900 on each conversion is a
  zero-padded decimal number of fixed width.
\<close>

definition digit_char :: "nat \<Rightarrow> char" where
  "digit_char n = ''0123456789'' ! (n mod 10)"

definition pad2 :: "nat \<Rightarrow> string" where
  "pad2 n = [digit_char (n div 10), digit_char n]"

definition pad4 :: "nat \<Rightarrow> string" where
  "pad4 n = [digit_char (n div 1000), digit_char (n div 100), digit_char (n div 10), digit_char n]"

definition strftime_m :: "datetime \<Rightarrow> error + string" where
  "strftime_m t = (if dt_year t < 1900 then Inl ValueError else Inr (pad2 (dt_month t)))"

definition strftime_d :: "datetime \<Rightarrow> error + string" where
  "strftime_d t = (if dt_year t < 1900 then Inl ValueError else Inr (pad2 (dt_day t)))"

definition strftime_hourly :: "datetime \<Rightarrow> error + string" where
  "strftime_hourly t =
     (if dt_year t < 1900 then Inl ValueError
      else Inr (''OOI-D'' @ pad4 (dt_year t) @ pad2 (dt_month t) @ pad2 (dt_day t) @
                ''-T'' @ pad2 (dt_hour t) @ pad2 (dt_minute t) @ pad2 (dt_second t) @ ''.nc''))"

subsection \<open>Floats\<close>

text \<open>
  A Python float is an IEEE 754 double: a finite value, one of the two infinities, or a
  NaN. The finite values are reals here (the two zeros are one value, and so are the
  NaNs), and \<open>round_double\<close> is the rounding of a real to the nearest double, to the
  even significand in a tie: 53 bits of significand, the least exponent of a normal
  number -1022, below it the subnormal numbers in steps of \<^verbatim>\<open>2**-1074\<close>, and an
  infinity for a magnitude that rounds to \<^verbatim>\<open>2**1024\<close> or more.
\<close>

datatype py_float = Finite_Float real | Pos_Inf | Neg_Inf | NaN

text \<open>The number of bits of a positive integer, \<^verbatim>\<open>n.bit_length()\<close>.\<close>

function bit_length :: "int \<Rightarrow> int" where
  "bit_length n = (if n \<le> 0 then 0 else 1 + bit_length (n div 2))"
  by pat_completeness auto
termination
  by (relation "measure nat") auto

definition pow2 :: "int \<Rightarrow> real" where
  "pow2 k = (if 0 \<le> k then 2 ^ nat k else 1 / 2 ^ nat (- k))"

text \<open>
  For a positive \<open>x\<close>, the exponent \<open>e\<close> with
  \<^verbatim>\<open>2**e <= x < 2**(e+1)\<close>.
\<close>

definition floor_log2 :: "real \<Rightarrow> int" where
  "floor_log2 x =
     (if 1 \<le> x then bit_length \<lfloor>x\<rfloor> - 1 else - bit_length (\<lceil>1 / x\<rceil> - 1))"

definition round_half_even :: "real \<Rightarrow> int" where
  "round_half_even x =
     (let n = \<lfloor>x\<rfloor>; d = x - of_int n
      in if d < 1 / 2 then n else if 1 / 2 < d then n + 1 else if even n then n else n + 1)"

definition round_double :: "real \<Rightarrow> py_float" where
  "round_double x =
     (if x = 0 then Finite_Float 0
      else
        (let e = max (floor_log2 \<bar>x\<bar>) (- 1022);
             ulp = pow2 (e - 52);
             n = round_half_even (\<bar>x\<bar> / ulp)
         in if 1024 \<le> e \<or> (e = 1023 \<and> n = 9007199254740992)
            then (if 0 < x then Pos_Inf else Neg_Inf)
            else Finite_Float (if 0 < x then of_int n * ulp else - (of_int n * ulp))))"


text \<open>\<^verbatim>\<open>x + y\<close> on two floats: the exact sum, rounded.\<close>

fun py_float_add :: "py_float \<Rightarrow> py_float \<Rightarrow> py_float" where
  "py_float_add (Finite_Float x) (Finite_Float y) = round_double (x + y)"
| "py_float_add NaN _ = NaN"
| "py_float_add _ NaN = NaN"
| "py_float_add Pos_Inf Neg_Inf = NaN"
| "py_float_add Neg_Inf Pos_Inf = NaN"
| "py_float_add Pos_Inf _ = Pos_Inf"
| "py_float_add Neg_Inf _ = Neg_Inf"
| "py_float_add _ Pos_Inf = Pos_Inf"
| "py_float_add _ Neg_Inf = Neg_Inf"

text \<open>
  The literal \<^verbatim>\<open>0.001\<close> is the double nearest to one thousandth, and the
  integer \<^verbatim>\<open>0\<close> is converted to the float zero when it is added to a float.
\<close>

definition float_literal_0_001 :: py_float where
  "float_literal_0_001 = round_double (1 / 1000)"

definition float_of_int_0 :: py_float where
  "float_of_int_0 = Finite_Float 0"

subsection \<open>The two filename grammars\<close>

datatype echogram_type = Averaged | Full | Hourly

definition echogram_type_str :: "echogram_type \<Rightarrow> string" where
  "echogram_type_str ty =
     (case ty of Averaged \<Rightarrow> ''Averaged'' | Full \<Rightarrow> ''Full'' | Hourly \<Rightarrow> ''Hourly'')"

definition averaged_or_full_filename_regex_str :: string where
  "averaged_or_full_filename_regex_str =
     ''Bioacoustic_Echogram_(?P<start_date>[0-9]{8})-(?P<stop_date>[0-9]{8})'' @
     ''_Calibrated_Sv_(?P<type>Averaged|Full)_?(?P<date>[0-9]{8})?'' @ [CHR 0x5C] @ ''.nc''"

definition hourly_filename_regex_str :: string where
  "hourly_filename_regex_str = ''OOI-D[0-9]{8}-T[0-9]{6}'' @ [CHR 0x5C] @ ''.nc''"

text \<open>The groups of a match of the first pattern; \<open>date\<close> may not take part.\<close>

record range_match =
  start_date :: string
  stop_date :: string
  type_group :: echogram_type
  date_group :: "string option"

text \<open>
  The end of the first pattern, \<^verbatim>\<open>_?(?P<date>[0-9]{8})?\.nc\<close>, with the
  alternatives in the order in which the matcher tries them: both question marks are
  greedy.
\<close>

definition opt_date_ext :: "string \<Rightarrow> string option option" where
  "opt_date_ext r =
     (case (case take_digits 8 r of
              None \<Rightarrow> None
            | Some (d, r') \<Rightarrow> if strip_prefix ''.nc'' r' \<noteq> None then Some (Some d) else None) of
        Some g \<Rightarrow> Some g
      | None \<Rightarrow> if strip_prefix ''.nc'' r \<noteq> None then Some None else None)"

definition underscore_date_ext :: "string \<Rightarrow> string option option" where
  "underscore_date_ext r =
     (case (case strip_prefix ''_'' r of None \<Rightarrow> None | Some r' \<Rightarrow> opt_date_ext r') of
        Some g \<Rightarrow> Some g
      | None \<Rightarrow> opt_date_ext r)"

definition type_date_ext :: "string \<Rightarrow> (echogram_type \<times> string option) option" where
  "type_date_ext r =
     (case (case strip_prefix ''Averaged'' r of
              None \<Rightarrow> None
            | Some r' \<Rightarrow> map_option (Pair Averaged) (underscore_date_ext r')) of
        Some g \<Rightarrow> Some g
      | None \<Rightarrow>
          (case strip_prefix ''Full'' r of
             None \<Rightarrow> None
           | Some r' \<Rightarrow> map_option (Pair Full) (underscore_date_ext r')))"

text \<open>The first pattern, matched at the start of \<open>s\<close>.\<close>

definition range_match_at :: "string \<Rightarrow> range_match option" where
  "range_match_at s =
     (case strip_prefix ''Bioacoustic_Echogram_'' s of
        None \<Rightarrow> None
      | Some r1 \<Rightarrow>
     (case take_digits 8 r1 of
        None \<Rightarrow> None
      | Some (d1, r2) \<Rightarrow>
     (case strip_prefix ''-'' r2 of
        None \<Rightarrow> None
      | Some r3 \<Rightarrow>
     (case take_digits 8 r3 of
        None \<Rightarrow> None
      | Some (d2, r4) \<Rightarrow>
     (case strip_prefix ''_Calibrated_Sv_'' r4 of
        None \<Rightarrow> None
      | Some r5 \<Rightarrow>
     (case type_date_ext r5 of
        None \<Rightarrow> None
      | Some (ty, d) \<Rightarrow>
          Some \<lparr>start_date = d1, stop_date = d2, type_group = ty, date_group = d\<rparr>))))))"

text \<open>\<^verbatim>\<open>re.compile(...).search(s)\<close>: the match at the leftmost position that has one.\<close>

fun range_search :: "string \<Rightarrow> range_match option" where
  "range_search [] = range_match_at []"
| "range_search (c # cs) =
     (case range_match_at (c # cs) of Some m \<Rightarrow> Some m | None \<Rightarrow> range_search cs)"

subsection \<open>The netCDF files, the parser object and its collaborators\<close>

text \<open>
  What the parser reads of a netCDF file: the groups by name, each with its attributes
  and variables, and the variables at the top level. A missing group or variable is a
  \<^verbatim>\<open>KeyError\<close>, a missing attribute an \<^verbatim>\<open>AttributeError\<close>, element 0
  of an empty variable an \<^verbatim>\<open>IndexError\<close>.
\<close>

record nc_group =
  grp_attrs :: "string \<rightharpoonup> string"
  grp_variables :: "string \<rightharpoonup> py_float list"

record nc_dataset =
  ds_groups :: "string \<rightharpoonup> nc_group"
  ds_variables :: "string \<rightharpoonup> py_float list"

datatype provenance_key =
  DATA_FILE_NAME | CONVERSION_SOFTWARE_NAME | CONVERSION_SOFTWARE_VERSION | CONVERSION_TIME

text \<open>
  The dictionary \<^verbatim>\<open>particle_data_dict\<close> of lines 237 to 255, with its three
  keys \<^verbatim>\<open>DataParticleKey.INTERNAL_TIMESTAMP\<close>,
  \<^verbatim>\<open>ZplscMetadataParticleKey.FILE_TIME\<close> and
  \<^verbatim>\<open>ZplscMetadataParticleKey.ECHOGRAM_PATH\<close>.
\<close>

record particle_data =
  pd_internal_timestamp :: py_float
  pd_zplsc_timestamp :: py_float
  pd_filepath :: string

text \<open>
  The \<^verbatim>\<open>zplsc_metadata\<close> particle: the internal timestamp and the driver
  timestamp of its \<^verbatim>\<open>contents\<close>, the two values that
  \<^verbatim>\<open>_build_parsed_values\<close> takes from the dictionary, and the list that
  \<^verbatim>\<open>get_encoding_errors\<close> returns.
\<close>

record particle =
  internal_timestamp :: py_float
  zplsc_timestamp :: py_float
  filepath :: string
  driver_timestamp :: py_float
  encoding_errors :: "string list"

text \<open>
  The state: the dictionary \<^verbatim>\<open>self.provenance\<close>, the list
  \<^verbatim>\<open>self._record_buffer\<close>, the datasets that are open, and every path that was
  handed to \<^verbatim>\<open>netCDF4.Dataset\<close> so far.
\<close>

record parser_state =
  provenance :: "provenance_key \<rightharpoonup> string"
  record_buffer :: "particle list"
  open_datasets :: "string list"
  dataset_opens :: "string list"

text \<open>
  The collaborators: \<^verbatim>\<open>os.listdir\<close> (\<open>None\<close> when it raises),
  \<^verbatim>\<open>netCDF4.Dataset\<close> (\<open>None\<close> when the file cannot be opened),
  \<^verbatim>\<open>time_to_ntp_date_time\<close> and \<^verbatim>\<open>string_to_ntp_date_time\<close> of
  \<^verbatim>\<open>mi.core.time_tools\<close> (\<open>None\<close> when the string is no time), and
  what the sources leave open about the particle that
  \<^verbatim>\<open>_extract_sample\<close> returns for a dictionary and an internal timestamp:
  \<open>None\<close> when it returns \<^verbatim>\<open>None\<close>, and else the driver timestamp
  that the constructor has set and the encoding errors of the particle.
\<close>

record env =
  listdir :: "string \<Rightarrow> string list option"
  nc_files :: "string \<Rightarrow> nc_dataset option"
  time_to_ntp_date_time :: "py_float \<Rightarrow> py_float"
  string_to_ntp_date_time :: "string \<Rightarrow> py_float option"
  sample_outcome :: "particle_data \<Rightarrow> py_float \<Rightarrow> (py_float \<times> string list) option"

definition netCDF4_Dataset :: "env \<Rightarrow> string \<Rightarrow> parser_state \<Rightarrow> (error + nc_dataset) \<times> parser_state" where
  "netCDF4_Dataset e path s =
     (let s' = s\<lparr>dataset_opens := dataset_opens s @ [path]\<rparr>
      in case nc_files e path of
           None \<Rightarrow> (Inl IOError, s')
         | Some ds \<Rightarrow> (Inr ds, s'\<lparr>open_datasets := path # open_datasets s'\<rparr>))"

definition nc_close :: "string \<Rightarrow> parser_state \<Rightarrow> parser_state" where
  "nc_close path s = s\<lparr>open_datasets := remove1 path (open_datasets s)\<rparr>"

definition group_attr :: "nc_dataset \<Rightarrow> string \<Rightarrow> string \<Rightarrow> error + string" where
  "group_attr ds g a =
     (case ds_groups ds g of
        None \<Rightarrow> Inl (KeyError g)
      | Some grp \<Rightarrow> (case grp_attrs grp a of None \<Rightarrow> Inl (AttributeError a) | Some v \<Rightarrow> Inr v))"

definition first_elem :: "py_float list \<Rightarrow> error + py_float" where
  "first_elem xs = (case xs of [] \<Rightarrow> Inl IndexError | x # _ \<Rightarrow> Inr x)"

subsection \<open>set_provenance_from_hourly_file\<close>

text \<open>
  Lines 268 to 274. Each attribute is stored as soon as it is read; the dataset is closed
  by the last statement, which an exception of a read before it skips.
\<close>

definition set_provenance_from_hourly_file ::
  "env \<Rightarrow> string \<Rightarrow> parser_state \<Rightarrow> (error + unit) \<times> parser_state" where
  "set_provenance_from_hourly_file e hourly_file s =
     (case netCDF4_Dataset e hourly_file s of
        (Inl err, s0) \<Rightarrow> (Inl err, s0)
      | (Inr ds, s0) \<Rightarrow>
     (case group_attr ds ''Provenance'' ''src_filenames'' of
        Inl err \<Rightarrow> (Inl err, s0)
      | Inr v1 \<Rightarrow>
     (let s1 = s0\<lparr>provenance := (provenance s0)(DATA_FILE_NAME \<mapsto> v1)\<rparr> in
      case group_attr ds ''Provenance'' ''conversion_software_name'' of
        Inl err \<Rightarrow> (Inl err, s1)
      | Inr v2 \<Rightarrow>
     (let s2 = s1\<lparr>provenance := (provenance s1)(CONVERSION_SOFTWARE_NAME \<mapsto> v2)\<rparr> in
      case group_attr ds ''Provenance'' ''conversion_software_version'' of
        Inl err \<Rightarrow> (Inl err, s2)
      | Inr v3 \<Rightarrow>
     (let s3 = s2\<lparr>provenance := (provenance s2)(CONVERSION_SOFTWARE_VERSION \<mapsto> v3)\<rparr> in
      case group_attr ds ''Provenance'' ''conversion_time'' of
        Inl err \<Rightarrow> (Inl err, s3)
      | Inr v4 \<Rightarrow>
     (let s4 = s3\<lparr>provenance := (provenance s3)(CONVERSION_TIME \<mapsto> v4)\<rparr>
      in (Inr (), nc_close hourly_file s4)))))))"

subsection \<open>modify_provenance_for_echogram_type\<close>

text \<open>Lines 276 to 312.\<close>

definition modify_provenance_for_echogram_type ::
  "echogram_type \<Rightarrow> datetime \<Rightarrow> datetime \<Rightarrow> parser_state \<Rightarrow> (error + unit) \<times> parser_state" where
  "modify_provenance_for_echogram_type echogram_type first_datetime last_datetime s =
     (case provenance s DATA_FILE_NAME of
        None \<Rightarrow> (Inr (), s)
      | Some data_file_name \<Rightarrow>
          if echogram_type = Hourly \<or> data_file_name = [] then (Inr (), s)
          else
            (let (daily_dirname, data_filename) = os_path_split data_file_name;
                 (data_filename_wo_ext, data_filename_ext) = os_path_splitext data_filename
             in if echogram_type = Full then
                  (Inr (), s\<lparr>provenance := (provenance s)(DATA_FILE_NAME \<mapsto>
                     py_slice_to data_file_name (py_rfind CHR ''T'' data_file_name)
                       @ ''T*'' @ data_filename_ext)\<rparr>)
                else
                  (case dt_minus_one_day last_datetime of
                     Inl err \<Rightarrow> (Inl err, s)
                   | Inr last_datetime' \<Rightarrow>
                       (let base_time_range_str =
                              py_slice_to data_filename_wo_ext (py_rfind CHR ''D'' data_filename_wo_ext)
                                @ ''D*-T*'' @ data_filename_ext;
                            monthly_dirname = fst (os_path_split daily_dirname);
                            yearly_dirname = fst (os_path_split monthly_dirname)
                        in case strftime_m first_datetime of
                             Inl err \<Rightarrow> (Inl err, s)
                           | Inr first_m \<Rightarrow>
                          (case strftime_d first_datetime of
                             Inl err \<Rightarrow> (Inl err, s)
                           | Inr first_d \<Rightarrow>
                          (let first_path = os_path_join yearly_dirname
                                 [first_m, first_d, base_time_range_str];
                               s1 = s\<lparr>provenance := (provenance s)(DATA_FILE_NAME \<mapsto> first_path)\<rparr>
                           in if dt_less first_datetime last_datetime' then
                                (case strftime_m last_datetime' of
                                   Inl err \<Rightarrow> (Inl err, s1)
                                 | Inr last_m \<Rightarrow>
                                (case strftime_d last_datetime' of
                                   Inl err \<Rightarrow> (Inl err, s1)
                                 | Inr last_d \<Rightarrow>
                                   (Inr (), s1\<lparr>provenance := (provenance s1)(DATA_FILE_NAME \<mapsto>
                                      first_path @ '' ... '' @
                                      os_path_join yearly_dirname
                                        [last_m, last_d, base_time_range_str])\<rparr>)))
                              else (Inr (), s1)))))))"

subsection \<open>get_first_ping_time_from_echogram\<close>

text \<open>Lines 314 to 321: the value that is read, and the method with its effect on the state.\<close>

definition read_first_ping_time :: "env \<Rightarrow> nc_dataset \<Rightarrow> echogram_type \<Rightarrow> error + py_float" where
  "read_first_ping_time e ds echogram_type =
     (if echogram_type = Hourly then
        (case ds_groups ds ''Beam'' of
           None \<Rightarrow> Inl (KeyError ''Beam'')
         | Some grp \<Rightarrow>
             (case grp_variables grp ''ping_time'' of
                None \<Rightarrow> Inl (KeyError ''ping_time'')
              | Some xs \<Rightarrow> first_elem xs))
      else
        (case ds_variables ds ''ping_time'' of
           None \<Rightarrow> Inl (KeyError ''ping_time'')
         | Some xs \<Rightarrow>
             (case first_elem xs of
                Inl err \<Rightarrow> Inl err
              | Inr x \<Rightarrow> Inr (time_to_ntp_date_time e x))))"

definition get_first_ping_time_from_echogram ::
  "env \<Rightarrow> string \<Rightarrow> echogram_type \<Rightarrow> parser_state \<Rightarrow> (error + py_float) \<times> parser_state" where
  "get_first_ping_time_from_echogram e echogram_filepath echogram_type s =
     (case netCDF4_Dataset e echogram_filepath s of
        (Inl err, s0) \<Rightarrow> (Inl err, s0)
      | (Inr ds, s0) \<Rightarrow>
          (case read_first_ping_time e ds echogram_type of
             Inl err \<Rightarrow> (Inl err, s0)
           | Inr t \<Rightarrow> (Inr t, nc_close echogram_filepath s0)))"

subsection \<open>parse_file\<close>

text \<open>
  The method is modelled in the four parts in which it runs: the classification of the
  filename (lines 192 to 203), the pattern and the interval of the hourly files (lines 207
  to 220), the hourly files of the directory (lines 224 to 228), and the rest (lines 230
  to 266).
\<close>

definition format_error_msg :: "string \<Rightarrow> string" where
  "format_error_msg echogram_filename =
     ''Filename '' @ [CHR 0x22] @ echogram_filename @ [CHR 0x22] @
     '' not in either of the expected formats: '' @
     [CHR 0x22] @ averaged_or_full_filename_regex_str @ [CHR 0x22] @ '' or '' @
     [CHR 0x22] @ hourly_filename_regex_str @ [CHR 0x22]"

text \<open>
  The message of lines 231 to 233; the two calls of \<^verbatim>\<open>strftime\<close> are
  evaluated first, and either may raise.
\<close>

definition correlation_error_msg ::
  "datetime \<Rightarrow> datetime \<Rightarrow> echogram_type \<Rightarrow> string \<Rightarrow> string \<Rightarrow> error + string" where
  "correlation_error_msg start_day_datetime stop_day_datetime echogram_type echogram_filename
       hourly_file_regex =
     (case strftime_hourly start_day_datetime of
        Inl err \<Rightarrow> Inl err
      | Inr start_str \<Rightarrow>
     (case strftime_hourly stop_day_datetime of
        Inl err \<Rightarrow> Inl err
      | Inr stop_str \<Rightarrow>
          Inr (''Hourly files from '' @ start_str @ '' to '' @ stop_str @
               '' corresponding to '' @
               [CHR 0x22] @ echogram_type_str echogram_type @ [CHR 0x22] @ '' echogram '' @
               [CHR 0x22] @ echogram_filename @ [CHR 0x22] @
               '' could not be found that match regex '' @
               [CHR 0x22] @ hourly_file_regex @ [CHR 0x22])))"

text \<open>
  The match object \<^verbatim>\<open>m\<close>: a match of the first pattern with its groups, or a
  match of the second pattern, which has no group (asking it for one is an
  \<^verbatim>\<open>IndexError\<close>).
\<close>

datatype match_obj = Range_Match range_match | Hourly_Match

definition m_group :: "match_obj \<Rightarrow> string \<Rightarrow> error + string option" where
  "m_group m name =
     (case m of
        Hourly_Match \<Rightarrow> Inl IndexError
      | Range_Match r \<Rightarrow>
          if name = ''start_date'' then Inr (Some (start_date r))
          else if name = ''stop_date'' then Inr (Some (stop_date r))
          else if name = ''type'' then Inr (Some (echogram_type_str (type_group r)))
          else if name = ''date'' then Inr (date_group r)
          else Inl IndexError)"

definition parse_file_classify :: "string \<Rightarrow> error + echogram_type \<times> match_obj" where
  "parse_file_classify echogram_filename =
     (case range_search echogram_filename of
        Some r \<Rightarrow> Inr (type_group r, Range_Match r)
      | None \<Rightarrow>
          if re_match hourly_filename_regex_str echogram_filename
          then Inr (Hourly, Hourly_Match)
          else Inl (SampleException (format_error_msg echogram_filename)))"

definition parse_file_window ::
  "echogram_type \<Rightarrow> match_obj \<Rightarrow> string \<Rightarrow> error + string \<times> datetime \<times> datetime" where
  "parse_file_window echogram_type m echogram_filename =
     (if echogram_type = Full then
        (case m_group m ''date'' of
           Inl err \<Rightarrow> Inl err
         | Inr None \<Rightarrow> Inl (TypeError Concat_Str_NoneType)
         | Inr (Some d) \<Rightarrow>
             (let hourly_file_regex = ''OOI-D'' @ d @ ''-T[0-9]{6}'' @ [CHR 0x5C] @ ''.nc''
              in case strptime_ymd (Some d) of
                   Inl err \<Rightarrow> Inl err
                 | Inr start_day_datetime \<Rightarrow>
                     (case dt_plus_one_day start_day_datetime of
                        Inl err \<Rightarrow> Inl err
                      | Inr stop_day_datetime \<Rightarrow>
                          Inr (hourly_file_regex, start_day_datetime, stop_day_datetime))))
      else if echogram_type = Averaged then
        (case m_group m ''start_date'' of
           Inl err \<Rightarrow> Inl err
         | Inr g1 \<Rightarrow>
        (case strptime_ymd g1 of
           Inl err \<Rightarrow> Inl err
         | Inr start_day_datetime \<Rightarrow>
        (case m_group m ''stop_date'' of
           Inl err \<Rightarrow> Inl err
         | Inr g2 \<Rightarrow>
        (case strptime_ymd g2 of
           Inl err \<Rightarrow> Inl err
         | Inr stop_day_datetime \<Rightarrow>
             Inr (hourly_filename_regex_str, start_day_datetime, stop_day_datetime)))))
      else
        (case strptime_hourly echogram_filename of
           Inl err \<Rightarrow> Inl err
         | Inr start_day_datetime \<Rightarrow>
             Inr (echogram_filename, start_day_datetime, start_day_datetime)))"

text \<open>
  The list comprehension of lines 224 to 228, entry by entry: \<^verbatim>\<open>strptime\<close> is
  called on an entry that matches the pattern, unless the type is Hourly, and its
  exception ends the comprehension.
\<close>

fun hourly_files_of ::
  "string \<Rightarrow> echogram_type \<Rightarrow> datetime \<Rightarrow> datetime \<Rightarrow> string list \<Rightarrow> error + string list" where
  "hourly_files_of hourly_file_regex echogram_type start stop [] = Inr []"
| "hourly_files_of hourly_file_regex echogram_type start stop (f # fs) =
     (if re_match hourly_file_regex f then
        (if echogram_type = Hourly then
           (case hourly_files_of hourly_file_regex echogram_type start stop fs of
              Inl err \<Rightarrow> Inl err
            | Inr r \<Rightarrow> Inr (f # r))
         else
           (case strptime_hourly f of
              Inl err \<Rightarrow> Inl err
            | Inr t \<Rightarrow>
                (case hourly_files_of hourly_file_regex echogram_type start stop fs of
                   Inl err \<Rightarrow> Inl err
                 | Inr r \<Rightarrow> if dt_le start t \<and> dt_less t stop then Inr (f # r) else Inr r)))
      else hourly_files_of hourly_file_regex echogram_type start stop fs)"

definition parse_file_hourly_files ::
  "env \<Rightarrow> string \<Rightarrow> string \<Rightarrow> echogram_type \<Rightarrow> datetime \<Rightarrow> datetime \<Rightarrow> error + string list" where
  "parse_file_hourly_files e echogram_dirname hourly_file_regex echogram_type start stop =
     (case listdir e echogram_dirname of
        None \<Rightarrow> Inl OSError
      | Some entries \<Rightarrow> hourly_files_of hourly_file_regex echogram_type start stop entries)"

text \<open>
  Modelled from the spec: \<^verbatim>\<open>_extract_sample\<close> of the base class
  \<^verbatim>\<open>SimpleParser\<close> with the constructor of \<^verbatim>\<open>DataParticle\<close>,
  which are not among the sources. The record is built from the dictionary and the
  internal timestamp that are handed over (section 4.6 of the specification); whether
  there is a particle at all, the driver timestamp that its constructor sets, and its
  encoding errors are left to the environment.
\<close>

definition extract_sample :: "env \<Rightarrow> particle_data \<Rightarrow> py_float \<Rightarrow> particle option" where
  "extract_sample e raw_data its =
     (case sample_outcome e raw_data its of
        None \<Rightarrow> None
      | Some (constructor_time, errors) \<Rightarrow>
          Some \<lparr>internal_timestamp = its,
                zplsc_timestamp = pd_zplsc_timestamp raw_data,
                filepath = pd_filepath raw_data,
                driver_timestamp = constructor_time,
                encoding_errors = errors\<rparr>)"

text \<open>
  Lines 237 to 266, for a list of hourly files that is not empty. Line 262 evaluates its
  right-hand side first and then \<^verbatim>\<open>particle.contents\<close>, which is an
  \<^verbatim>\<open>AttributeError\<close> when the particle is \<^verbatim>\<open>None\<close>; line 265
  appends the particle unless it has encoding errors.
\<close>

definition parse_file_particle ::
  "env \<Rightarrow> string \<Rightarrow> string \<Rightarrow> echogram_type \<Rightarrow> datetime \<Rightarrow> datetime \<Rightarrow> string list \<Rightarrow>
   parser_state \<Rightarrow> (error + unit) \<times> parser_state" where
  "parse_file_particle e echogram_filepath echogram_dirname echogram_type start_day_datetime
       stop_day_datetime hourly_files s =
     (case sort hourly_files of
        [] \<Rightarrow> (Inl IndexError, s)
      | first_file # _ \<Rightarrow>
     (case set_provenance_from_hourly_file e (os_path_join echogram_dirname [first_file]) s of
        (Inl err, s1) \<Rightarrow> (Inl err, s1)
      | (Inr _, s1) \<Rightarrow>
     (case modify_provenance_for_echogram_type echogram_type start_day_datetime
              stop_day_datetime s1 of
        (Inl err, s2) \<Rightarrow> (Inl err, s2)
      | (Inr _, s2) \<Rightarrow>
     (let timestamp_offset = (if echogram_type = Full then float_literal_0_001 else float_of_int_0) in
      case get_first_ping_time_from_echogram e echogram_filepath echogram_type s2 of
        (Inl err, s3) \<Rightarrow> (Inl err, s3)
      | (Inr first_ping_time, s3) \<Rightarrow>
     (let particle_data_dict =
            \<lparr>pd_internal_timestamp = py_float_add first_ping_time timestamp_offset,
              pd_zplsc_timestamp = first_ping_time,
              pd_filepath = echogram_filepath\<rparr>;
          particle = extract_sample e particle_data_dict (pd_internal_timestamp particle_data_dict)
      in case provenance s3 CONVERSION_TIME of
        None \<Rightarrow> (Inl (KeyError ''conversion_time''), s3)
      | Some conversion_time \<Rightarrow>
     (case string_to_ntp_date_time e conversion_time of
        None \<Rightarrow> (Inl ValueError, s3)
      | Some ts \<Rightarrow>
     (case particle of
        None \<Rightarrow> (Inl (AttributeError ''contents''), s3)
      | Some p \<Rightarrow>
          (let p' = p\<lparr>driver_timestamp := ts\<rparr>
           in if encoding_errors p' = []
              then (Inr (), s3\<lparr>record_buffer := record_buffer s3 @ [p']\<rparr>)
              else (Inr (), s3)))))))))"

definition parse_file :: "env \<Rightarrow> string \<Rightarrow> parser_state \<Rightarrow> (error + unit) \<times> parser_state" where
  "parse_file e echogram_filepath s =
     (let (echogram_dirname, echogram_filename) = os_path_split echogram_filepath
      in case parse_file_classify echogram_filename of
        Inl err \<Rightarrow> (Inl err, s)
      | Inr (echogram_type, m) \<Rightarrow>
     (case parse_file_window echogram_type m echogram_filename of
        Inl err \<Rightarrow> (Inl err, s)
      | Inr (hourly_file_regex, start_day_datetime, stop_day_datetime) \<Rightarrow>
     (case parse_file_hourly_files e echogram_dirname hourly_file_regex echogram_type
             start_day_datetime stop_day_datetime of
        Inl err \<Rightarrow> (Inl err, s)
      | Inr hourly_files \<Rightarrow>
          if length hourly_files = 0 then
            (case correlation_error_msg start_day_datetime stop_day_datetime echogram_type
                    echogram_filename hourly_file_regex of
               Inl err \<Rightarrow> (Inl err, s)
             | Inr error_msg \<Rightarrow> (Inl (SampleException error_msg), s))
          else parse_file_particle e echogram_filepath echogram_dirname echogram_type
                 start_day_datetime stop_day_datetime hourly_files s)))"

subsection \<open>Notions of the specification\<close>

text \<open>
  The second grammar matched as a whole: the pattern has a fixed width of 24 characters.
\<close>

definition is_hourly_form :: "string \<Rightarrow> bool" where
  "is_hourly_form f \<longleftrightarrow> re_match hourly_filename_regex_str f \<and> length f = 24"

subsection \<open>A directory for the examples\<close>

text \<open>
  A directory \<^verbatim>\<open>/e\<close> with two hourly files and another file, a directory
  \<^verbatim>\<open>/bad\<close> with the backup of an hourly file of another year, a directory
  \<^verbatim>\<open>/cut\<close> whose hourly file has one of the four provenance attributes only,
  and a directory \<^verbatim>\<open>/none\<close> without an hourly file.
\<close>

definition example_provenance_group :: nc_group where
  "example_provenance_group =
     \<lparr>grp_attrs = map_of
        [(''src_filenames'', ''/data/zplsc/2019/10/20/OOI-D20191020-T013835.raw''),
         (''conversion_software_name'', ''echopype''),
         (''conversion_software_version'', ''0.1''),
         (''conversion_time'', ''2019-11-01T00:00:00Z'')],
      grp_variables = Map.empty\<rparr>"

definition example_hourly_dataset :: nc_dataset where
  "example_hourly_dataset =
     \<lparr>ds_groups = map_of
        [(''Provenance'', example_provenance_group),
         (''Beam'', \<lparr>grp_attrs = Map.empty, grp_variables = map_of [(''ping_time'', [Finite_Float 100, Finite_Float 101])]\<rparr>)],
      ds_variables = Map.empty\<rparr>"

definition example_truncated_dataset :: nc_dataset where
  "example_truncated_dataset =
     \<lparr>ds_groups = map_of
        [(''Provenance'',
          \<lparr>grp_attrs = map_of [(''src_filenames'', ''OOI-D20191020-T013835.raw'')],
            grp_variables = Map.empty\<rparr>)],
      ds_variables = Map.empty\<rparr>"

definition example_echogram_dataset :: nc_dataset where
  "example_echogram_dataset =
     \<lparr>ds_groups = Map.empty, ds_variables = map_of [(''ping_time'', [Finite_Float 1571535515, Finite_Float 1571535516])]\<rparr>"

definition example_env :: env where
  "example_env =
     \<lparr>listdir = map_of
        [(''/e'', [''OOI-D20191021-T000000.nc'', ''OOI-D20191020-T013835.nc'', ''readme.txt'']),
         (''/bad'', [''OOI-D20180101-T000000.nc.bak'']),
         (''/cut'', [''OOI-D20191020-T013835.nc'']),
         (''/none'', [''readme.txt''])],
      nc_files = map_of
        [(''/e/OOI-D20191020-T013835.nc'', example_hourly_dataset),
         (''/e/OOI-D20191021-T000000.nc'', example_hourly_dataset),
         (''/cut/OOI-D20191020-T013835.nc'', example_truncated_dataset),
         (''/e/X_Bioacoustic_Echogram_20191020-20191027_Calibrated_Sv_Averaged.nc'',
          example_echogram_dataset),
         (''/e/X_Bioacoustic_Echogram_20191020-20191027_Calibrated_Sv_Full_20191020.nc'',
          example_echogram_dataset)],
      time_to_ntp_date_time = (\<lambda>x. py_float_add x (Finite_Float 2208988800)),
      string_to_ntp_date_time = (\<lambda>s. Some (Finite_Float 3781555200)),
      sample_outcome = (\<lambda>d t. Some (Finite_Float 3781555201, []))\<rparr>"

definition example_state :: parser_state where
  "example_state = \<lparr>provenance = Map.empty, record_buffer = [], open_datasets = [], dataset_opens = []\<rparr>"

definition example_datetime :: datetime where
  "example_datetime =
     \<lparr>dt_year = 2019, dt_month = 10, dt_day = 20, dt_hour = 1, dt_minute = 38, dt_second = 35\<rparr>"

section \<open>Properties\<close>

subsection \<open>Digits and patterns\<close>

lemma is_digit_cases: "is_digit c \<Longrightarrow> c \<in> set ''0123456789''"
proof -
  assume a: "is_digit c"
  define n where "n = (of_char c :: nat)"
  have "48 \<le> n \<and> n \<le> 57" using a by (simp add: is_digit_def less_eq_char_def n_def)
  then have "n = 48 \<or> n = 49 \<or> n = 50 \<or> n = 51 \<or> n = 52 \<or> n = 53 \<or> n = 54 \<or> n = 55 \<or> n = 56 \<or> n = 57"
    by arith
  then have "(of_char c :: nat) = of_char CHR ''0'' \<or> (of_char c :: nat) = of_char CHR ''1'' \<or>
    (of_char c :: nat) = of_char CHR ''2'' \<or> (of_char c :: nat) = of_char CHR ''3'' \<or>
    (of_char c :: nat) = of_char CHR ''4'' \<or> (of_char c :: nat) = of_char CHR ''5'' \<or>
    (of_char c :: nat) = of_char CHR ''6'' \<or> (of_char c :: nat) = of_char CHR ''7'' \<or>
    (of_char c :: nat) = of_char CHR ''8'' \<or> (of_char c :: nat) = of_char CHR ''9''"
    by (simp add: n_def)
  then show ?thesis unfolding of_char_eq_iff by auto
qed

lemma is_digit_plain:
  "is_digit c \<Longrightarrow> c \<noteq> CHR 0x5C \<and> c \<noteq> CHR ''['' \<and> c \<noteq> CHR ''.'' \<and> c \<notin> set ''^$*+?{}]()|''"
  by (drule is_digit_cases) auto

lemma re_compile_digits:
  "list_all is_digit ds \<Longrightarrow> re_compile (ds @ r) = map_option ((@) (map Lit ds)) (re_compile r)"
proof (induction ds)
  case Nil
  show ?case by (simp add: option.map_ident)
next
  case (Cons c ds)
  then have "is_digit c" and "list_all is_digit ds" by simp_all
  with Cons.IH is_digit_plain [of c] show ?case
    by (simp add: option.map_comp comp_def)
qed

lemma re_compile_hourly:
  "re_compile hourly_filename_regex_str =
     Some [Lit CHR ''O'', Lit CHR ''O'', Lit CHR ''I'', Lit CHR ''-'', Lit CHR ''D'', Digits 8,
           Lit CHR ''-'', Lit CHR ''T'', Digits 6, Lit CHR ''.'', Lit CHR ''n'', Lit CHR ''c'']"
  by code_simp

lemma re_toks_match_lits:
  "re_toks_match (map Lit p @ ts) s \<longleftrightarrow> take (length p) s = p \<and> re_toks_match ts (drop (length p) s)"
proof (induction p arbitrary: s)
  case Nil
  show ?case by simp
next
  case (Cons c p)
  show ?case by (cases s) (auto simp: Cons.IH)
qed

lemma strip_prefix_iff: "strip_prefix p s = Some r \<longleftrightarrow> s = p @ r"
  by (auto simp: strip_prefix_def) (metis append_take_drop_id)

lemma strip_prefix_append [simp]: "strip_prefix p (p @ r) = Some r"
  by (simp add: strip_prefix_iff)

lemma take_digits_iff:
  "take_digits n s = Some (d, r) \<longleftrightarrow> s = d @ r \<and> length d = n \<and> list_all is_digit d"
  by (auto simp: take_digits_def)

lemma take_digits_append [simp]:
  "length d = n \<Longrightarrow> list_all is_digit d \<Longrightarrow> take_digits n (d @ r) = Some (d, r)"
  by (simp add: take_digits_iff)

lemma lits_match:
  "re_toks_match (map Lit p @ ts) s \<longleftrightarrow> (\<exists>r. s = p @ r \<and> re_toks_match ts r)"
  by (auto simp: re_toks_match_lits) (metis append_take_drop_id)

lemma digits_match:
  "re_toks_match (Digits n # ts) s \<longleftrightarrow>
     (\<exists>d r. s = d @ r \<and> length d = n \<and> list_all is_digit d \<and> re_toks_match ts r)"
proof
  assume "re_toks_match (Digits n # ts) s"
  then have "s = take n s @ drop n s \<and> length (take n s) = n \<and> list_all is_digit (take n s) \<and>
    re_toks_match ts (drop n s)" by simp
  then show "\<exists>d r. s = d @ r \<and> length d = n \<and> list_all is_digit d \<and> re_toks_match ts r"
    by blast
next
  assume "\<exists>d r. s = d @ r \<and> length d = n \<and> list_all is_digit d \<and> re_toks_match ts r"
  then show "re_toks_match (Digits n # ts) s" by auto
qed

lemma re_compile_hourly_lits:
  "re_compile hourly_filename_regex_str =
     Some (map Lit ''OOI-D'' @ Digits 8 # map Lit ''-T'' @ Digits 6 # map Lit ''.nc'' @ [])"
  by (simp add: re_compile_hourly)

lemma re_match_hourly_iff:
  "re_match hourly_filename_regex_str f \<longleftrightarrow>
     (\<exists>D T rest. length D = 8 \<and> list_all is_digit D \<and> length T = 6 \<and> list_all is_digit T \<and>
        f = ''OOI-D'' @ D @ ''-T'' @ T @ ''.nc'' @ rest)"
  unfolding re_match_def re_compile_hourly_lits option.case lits_match digits_match
  by (simp only: re_toks_match.simps) blast

lemma re_compile_full_suffix:
  "re_compile (''-T[0-9]{6}'' @ [CHR 0x5C] @ ''.nc'') =
     Some (map Lit ''-T'' @ Digits 6 # map Lit ''.nc'' @ [])"
  by code_simp

lemma re_compile_full_pattern:
  assumes "list_all is_digit D"
  shows "re_compile (''OOI-D'' @ D @ ''-T[0-9]{6}'' @ [CHR 0x5C] @ ''.nc'') =
     Some (map Lit ''OOI-D'' @ map Lit D @ map Lit ''-T'' @ Digits 6 # map Lit ''.nc'' @ [])"
proof -
  have "re_compile (D @ ''-T[0-9]{6}'' @ [CHR 0x5C] @ ''.nc'') =
      Some (map Lit D @ map Lit ''-T'' @ Digits 6 # map Lit ''.nc'' @ [])"
    using re_compile_digits [OF assms] re_compile_full_suffix by simp
  then show ?thesis by simp
qed

lemma re_match_full_pattern_iff:
  assumes "list_all is_digit D"
  shows "re_match (''OOI-D'' @ D @ ''-T[0-9]{6}'' @ [CHR 0x5C] @ ''.nc'') f \<longleftrightarrow>
     (\<exists>T rest. length T = 6 \<and> list_all is_digit T \<and>
        f = ''OOI-D'' @ D @ ''-T'' @ T @ ''.nc'' @ rest)"
  unfolding re_match_def re_compile_full_pattern [OF assms] option.case lits_match digits_match
  by (simp only: re_toks_match.simps) blast

lemma strptime_hourly_iff:
  "strptime_hourly f = Inr t \<longleftrightarrow>
     (\<exists>D T. f = ''OOI-D'' @ D @ ''-T'' @ T @ ''.nc'' \<and>
        length D = 8 \<and> list_all is_digit D \<and> length T = 6 \<and> list_all is_digit T \<and>
        valid_date (nat_of_digits (take 4 D)) (nat_of_digits (take 2 (drop 4 D)))
          (nat_of_digits (drop 6 D)) \<and>
        valid_time (nat_of_digits (take 2 T)) (nat_of_digits (take 2 (drop 2 T)))
          (nat_of_digits (drop 4 T)) \<and>
        t = \<lparr>dt_year = nat_of_digits (take 4 D), dt_month = nat_of_digits (take 2 (drop 4 D)),
             dt_day = nat_of_digits (drop 6 D), dt_hour = nat_of_digits (take 2 T),
             dt_minute = nat_of_digits (take 2 (drop 2 T)), dt_second = nat_of_digits (drop 4 T)\<rparr>)"
  (is "?l \<longleftrightarrow> ?r")
proof
  assume ?l
  then obtain r1 D r2 r3 T where
    "strip_prefix ''OOI-D'' f = Some r1" "take_digits 8 r1 = Some (D, r2)"
    "strip_prefix ''-T'' r2 = Some r3" "take_digits 6 r3 = Some (T, ''.nc'')"
    and v: "valid_date (nat_of_digits (take 4 D)) (nat_of_digits (take 2 (drop 4 D)))
          (nat_of_digits (drop 6 D)) \<and>
        valid_time (nat_of_digits (take 2 T)) (nat_of_digits (take 2 (drop 2 T)))
          (nat_of_digits (drop 4 T)) \<and>
        t = \<lparr>dt_year = nat_of_digits (take 4 D), dt_month = nat_of_digits (take 2 (drop 4 D)),
             dt_day = nat_of_digits (drop 6 D), dt_hour = nat_of_digits (take 2 T),
             dt_minute = nat_of_digits (take 2 (drop 2 T)), dt_second = nat_of_digits (drop 4 T)\<rparr>"
    by (auto simp: strptime_hourly_def Let_def split: option.splits if_splits)
  then have "f = ''OOI-D'' @ D @ ''-T'' @ T @ ''.nc'' \<and>
        length D = 8 \<and> list_all is_digit D \<and> length T = 6 \<and> list_all is_digit T"
    by (simp add: strip_prefix_iff take_digits_iff)
  with v show ?r by blast
next
  assume ?r
  then show ?l
    by (auto simp: strptime_hourly_def Let_def simp del: append.simps)
qed

subsection \<open>The record buffer and the particle\<close>











subsection \<open>The provenance of an Hourly echogram\<close>

lemma modify_provenance_noop:
  "echogram_type = Hourly \<or> provenance s DATA_FILE_NAME = None \<or>
     provenance s DATA_FILE_NAME = Some [] \<Longrightarrow>
   modify_provenance_for_echogram_type echogram_type t1 t2 s = (Inr (), s)"
  by (auto simp: modify_provenance_for_echogram_type_def split: option.splits)

text \<open>
  C7. \<^verbatim>\<open>modify_provenance_for_echogram_type\<close> changes nothing, be it the data
  file name or any other part of the state, when the type is Hourly or when the data file
  name is absent or empty; so any number of calls in a row leaves the state as it was.
\<close>

theorem transformer_noop_idempotent:
  assumes "echogram_type = Hourly \<or> provenance s DATA_FILE_NAME = None \<or>
     provenance s DATA_FILE_NAME = Some []"
  shows "modify_provenance_for_echogram_type echogram_type t1 t2 s = (Inr (), s) \<and>
     ((\<lambda>s. snd (modify_provenance_for_echogram_type echogram_type t1 t2 s)) ^^ n) s = s"
proof -
  have one: "modify_provenance_for_echogram_type echogram_type t1 t2 s = (Inr (), s)"
    using assms by (rule modify_provenance_noop)
  have "((\<lambda>s. snd (modify_provenance_for_echogram_type echogram_type t1 t2 s)) ^^ n) s = s"
    by (induction n) (simp_all add: one)
  with one show ?thesis by simp
qed

theorem transformer_noop_idempotent_witness:
  "(Hourly = Hourly \<or> provenance example_state DATA_FILE_NAME = None \<or>
      provenance example_state DATA_FILE_NAME = Some []) \<and>
   modify_provenance_for_echogram_type Hourly example_datetime example_datetime example_state =
     (Inr (), example_state) \<and>
   ((\<lambda>s. snd (modify_provenance_for_echogram_type Hourly example_datetime example_datetime s)) ^^ 3)
     example_state = example_state"
  using transformer_noop_idempotent [of Hourly example_state example_datetime example_datetime 3]
  by simp

subsection \<open>A Full echogram without the date\<close>

lemma parse_file_full_without_date:
  assumes "os_path_split echogram_filepath = (echogram_dirname, echogram_filename)"
    and "range_search echogram_filename = Some r"
    and "type_group r = Full" and "date_group r = None"
  shows "parse_file_classify echogram_filename = Inr (Full, Range_Match r)"
    and "parse_file e echogram_filepath s = (Inl (TypeError Concat_Str_NoneType), s)"
  using assms
  by (simp_all add: parse_file_def parse_file_classify_def parse_file_window_def m_group_def)

text \<open>
  C10, as amended. When the first pattern matches with the type Full and without the
  optional date, the classification succeeds and \<^verbatim>\<open>parse_file\<close> raises a
  \<^verbatim>\<open>TypeError\<close>, which is neither of the two
  \<^verbatim>\<open>SampleException\<close>s; the parser state is unchanged. The exception comes
  from the concatenation \<^verbatim>\<open>'OOI-D' + None\<close> of line 208, one line before
  \<^verbatim>\<open>strptime\<close>, which is not reached.
\<close>

theorem full_without_date_type_error:
  assumes "os_path_split echogram_filepath = (echogram_dirname, echogram_filename)"
    and "range_search echogram_filename = Some r"
    and "type_group r = Full" and "date_group r = None"
  shows "parse_file_classify echogram_filename = Inr (Full, Range_Match r) \<and>
         parse_file e echogram_filepath s = (Inl (TypeError Concat_Str_NoneType), s)"
  using parse_file_full_without_date [OF assms] by simp

theorem full_without_date_type_error_witness:
  "parse_file_classify ''X_Bioacoustic_Echogram_20191020-20191027_Calibrated_Sv_Full.nc'' =
     Inr (Full, Range_Match \<lparr>start_date = ''20191020'', stop_date = ''20191027'',
                             type_group = Full, date_group = None\<rparr>) \<and>
   parse_file example_env ''/e/X_Bioacoustic_Echogram_20191020-20191027_Calibrated_Sv_Full.nc''
     example_state = (Inl (TypeError Concat_Str_NoneType), example_state)"
proof (rule full_without_date_type_error)
  show "os_path_split ''/e/X_Bioacoustic_Echogram_20191020-20191027_Calibrated_Sv_Full.nc'' =
    (''/e'', ''X_Bioacoustic_Echogram_20191020-20191027_Calibrated_Sv_Full.nc'')"
    by code_simp
  show "range_search ''X_Bioacoustic_Echogram_20191020-20191027_Calibrated_Sv_Full.nc'' =
    Some \<lparr>start_date = ''20191020'', stop_date = ''20191027'', type_group = Full, date_group = None\<rparr>"
    by code_simp
qed simp_all

text \<open>
  C10, as stated, names \<^verbatim>\<open>strptime(None, ...)\<close> as the origin of the
  \<^verbatim>\<open>TypeError\<close>. For an echogram named
  \<^verbatim>\<open>X_Bioacoustic_Echogram_20191020-20191027_Calibrated_Sv_Full.nc\<close> the date
  takes no part in the match, and the exception is not the one of \<^verbatim>\<open>strptime\<close>.
\<close>

theorem type_error_origin_counterexample:
  "date_group (the (range_search ''X_Bioacoustic_Echogram_20191020-20191027_Calibrated_Sv_Full.nc'')) = None \<and>
   fst (parse_file example_env ''/e/X_Bioacoustic_Echogram_20191020-20191027_Calibrated_Sv_Full.nc''
     example_state) \<noteq> Inl (TypeError Strptime_NoneType)"
  by code_simp

subsection \<open>The format error\<close>

text \<open>
  C1. A filename that matches neither the first grammar nor, as a whole, the second one
  is to end \<^verbatim>\<open>parse_file\<close> with the \<^verbatim>\<open>SampleException\<close> of
  the format error. \<^verbatim>\<open>parse_file\<close> hands the second pattern to
  \<^verbatim>\<open>re.match\<close>, and the pattern has no anchor at its end. So the name
  \<^verbatim>\<open>OOI-D20191020-T013835.nc.bak\<close>, which matches neither grammar, is
  classified as Hourly, and \<^verbatim>\<open>strptime\<close>, whose format is exact, raises
  a \<^verbatim>\<open>ValueError\<close> on line 219 instead.
\<close>

theorem backup_name_value_error:
  "range_search ''OOI-D20191020-T013835.nc.bak'' = None \<and>
   \<not> is_hourly_form ''OOI-D20191020-T013835.nc.bak'' \<and>
   parse_file_classify ''OOI-D20191020-T013835.nc.bak'' = Inr (Hourly, Hourly_Match) \<and>
   fst (parse_file example_env ''/e/OOI-D20191020-T013835.nc.bak'' example_state) = Inl ValueError"
  by code_simp

subsection \<open>Open datasets\<close>

text \<open>
  C9. Every dataset that \<^verbatim>\<open>parse_file\<close> opens is to be closed again when
  it returns, also when a read fails. Both methods that open a dataset close it with
  their last statement, which an exception of a read before it skips. The hourly file of
  the directory \<^verbatim>\<open>/cut\<close> has no attribute
  \<^verbatim>\<open>conversion_software_name\<close>: the \<^verbatim>\<open>AttributeError\<close> leaves
  \<^verbatim>\<open>set_provenance_from_hourly_file\<close> before line 274, and the dataset is
  still open when \<^verbatim>\<open>parse_file\<close> returns.
\<close>

theorem dataset_left_open_after_failed_read:
  "open_datasets example_state = [] \<and>
   fst (parse_file example_env ''/cut/OOI-D20191020-T013835.nc'' example_state) =
     Inl (AttributeError ''conversion_software_name'') \<and>
   open_datasets (snd (parse_file example_env ''/cut/OOI-D20191020-T013835.nc'' example_state)) =
     [''/cut/OOI-D20191020-T013835.nc'']"
  by code_simp

subsection \<open>The groups of the first pattern\<close>

lemma opt_date_ext_digits:
  "opt_date_ext r = Some (Some D) \<Longrightarrow> length D = 8 \<and> list_all is_digit D"
  by (auto simp: opt_date_ext_def take_digits_iff split: option.splits if_splits)

lemma underscore_date_ext_digits:
  "underscore_date_ext r = Some (Some D) \<Longrightarrow> length D = 8 \<and> list_all is_digit D"
  by (auto simp: underscore_date_ext_def split: option.splits dest: opt_date_ext_digits)

lemma type_date_ext_digits:
  "type_date_ext r = Some (ty, Some D) \<Longrightarrow> length D = 8 \<and> list_all is_digit D"
  by (auto simp: type_date_ext_def split: option.splits dest: underscore_date_ext_digits)

lemma range_match_at_groups:
  assumes "range_match_at s = Some r"
  shows "length (start_date r) = 8 \<and> list_all is_digit (start_date r) \<and>
         length (stop_date r) = 8 \<and> list_all is_digit (stop_date r) \<and>
         type_group r \<noteq> Hourly \<and>
         (\<forall>D. date_group r = Some D \<longrightarrow> length D = 8 \<and> list_all is_digit D) \<and>
         (\<exists>t. s = ''Bioacoustic_Echogram_'' @ t)"
proof -
  from assms obtain r1 d1 r2 r3 d2 r4 r5 ty d where
    a: "strip_prefix ''Bioacoustic_Echogram_'' s = Some r1" "take_digits 8 r1 = Some (d1, r2)"
       "strip_prefix ''-'' r2 = Some r3" "take_digits 8 r3 = Some (d2, r4)"
       "strip_prefix ''_Calibrated_Sv_'' r4 = Some r5" "type_date_ext r5 = Some (ty, d)"
       "r = \<lparr>start_date = d1, stop_date = d2, type_group = ty, date_group = d\<rparr>"
    by (auto simp: range_match_at_def split: option.splits)
  from a(6) have "ty \<noteq> Hourly"
    by (auto simp: type_date_ext_def split: option.splits)
  with a type_date_ext_digits [of r5 ty] show ?thesis
    by (auto simp: strip_prefix_iff take_digits_iff)
qed

lemma range_search_groups:
  "range_search s = Some r \<Longrightarrow>
     length (start_date r) = 8 \<and> list_all is_digit (start_date r) \<and>
     length (stop_date r) = 8 \<and> list_all is_digit (stop_date r) \<and>
     type_group r \<noteq> Hourly \<and>
     (\<forall>D. date_group r = Some D \<longrightarrow> length D = 8 \<and> list_all is_digit D) \<and>
     CHR ''B'' \<in> set s"
proof (induction s)
  case Nil
  then show ?case using range_match_at_groups [of "[]" r] by auto
next
  case (Cons c cs)
  show ?case
  proof (cases "range_match_at (c # cs)")
    case None
    with Cons show ?thesis by auto
  next
    case (Some m)
    with Cons.prems have "range_match_at (c # cs) = Some r" by simp
    from range_match_at_groups [OF this] show ?thesis by auto
  qed
qed

lemma digits_not_B: "list_all is_digit D \<Longrightarrow> CHR ''B'' \<notin> set D"
proof -
  have "\<not> is_digit CHR ''B''" by (simp add: is_digit_def)
  then show "list_all is_digit D \<Longrightarrow> CHR ''B'' \<notin> set D"
    by (auto simp: list_all_iff)
qed

lemma range_search_hourly_name:
  assumes "list_all is_digit D" "list_all is_digit T"
  shows "range_search (''OOI-D'' @ D @ ''-T'' @ T @ ''.nc'') = None"
proof (cases "range_search (''OOI-D'' @ D @ ''-T'' @ T @ ''.nc'')")
  case None
  then show ?thesis .
next
  case (Some r)
  from range_search_groups [OF Some] digits_not_B [OF assms(1)] digits_not_B [OF assms(2)]
  show ?thesis by auto
qed

lemma is_hourly_form_iff:
  "is_hourly_form f \<longleftrightarrow>
     (\<exists>D T. length D = 8 \<and> list_all is_digit D \<and> length T = 6 \<and> list_all is_digit T \<and>
        f = ''OOI-D'' @ D @ ''-T'' @ T @ ''.nc'')"
  unfolding is_hourly_form_def re_match_hourly_iff by auto

subsection \<open>The window of an Hourly echogram\<close>

text \<open>
  C8, as amended. For every filename \<^verbatim>\<open>OOI-D<D>-T<T>.nc\<close> of the hourly form
  whose eight digits \<open>D\<close> are a date of the calendar and whose six digits \<open>T\<close> are a
  time of the day, the name is classified as Hourly, and the start and the stop of the
  window are the same \<^verbatim>\<open>datetime\<close>: the day \<open>D\<close>, at the time \<open>T\<close>.
\<close>

theorem hourly_window:
  assumes "echogram_filename = ''OOI-D'' @ D @ ''-T'' @ T @ ''.nc''"
    and "length D = 8" and "list_all is_digit D" and "length T = 6" and "list_all is_digit T"
    and "valid_date (nat_of_digits (take 4 D)) (nat_of_digits (take 2 (drop 4 D)))
           (nat_of_digits (drop 6 D))"
    and "valid_time (nat_of_digits (take 2 T)) (nat_of_digits (take 2 (drop 2 T)))
           (nat_of_digits (drop 4 T))"
  shows "parse_file_classify echogram_filename = Inr (Hourly, Hourly_Match) \<and>
         (\<exists>t. parse_file_window Hourly Hourly_Match echogram_filename =
                Inr (echogram_filename, t, t) \<and>
              dt_year t = nat_of_digits (take 4 D) \<and>
              dt_month t = nat_of_digits (take 2 (drop 4 D)) \<and>
              dt_day t = nat_of_digits (drop 6 D) \<and>
              dt_hour t = nat_of_digits (take 2 T) \<and>
              dt_minute t = nat_of_digits (take 2 (drop 2 T)) \<and>
              dt_second t = nat_of_digits (drop 4 T))"
proof -
  have "range_search echogram_filename = None"
    unfolding assms(1) using assms(3,5) by (rule range_search_hourly_name)
  moreover have "re_match hourly_filename_regex_str echogram_filename"
    unfolding re_match_hourly_iff using assms(1-5) by (metis append_Nil2)
  ultimately have c: "parse_file_classify echogram_filename = Inr (Hourly, Hourly_Match)"
    by (simp add: parse_file_classify_def)
  define t where "t = \<lparr>dt_year = nat_of_digits (take 4 D),
    dt_month = nat_of_digits (take 2 (drop 4 D)), dt_day = nat_of_digits (drop 6 D),
    dt_hour = nat_of_digits (take 2 T), dt_minute = nat_of_digits (take 2 (drop 2 T)),
    dt_second = nat_of_digits (drop 4 T)\<rparr>"
  have "strptime_hourly echogram_filename = Inr t"
    unfolding strptime_hourly_iff t_def using assms by blast
  then have "parse_file_window Hourly Hourly_Match echogram_filename =
      Inr (echogram_filename, t, t)"
    by (simp add: parse_file_window_def)
  with c show ?thesis by (auto simp: t_def)
qed

theorem hourly_window_witness:
  "parse_file_classify ''OOI-D20191020-T013835.nc'' = Inr (Hourly, Hourly_Match) \<and>
   (\<exists>t. parse_file_window Hourly Hourly_Match ''OOI-D20191020-T013835.nc'' =
          Inr (''OOI-D20191020-T013835.nc'', t, t) \<and>
        dt_year t = 2019 \<and> dt_month t = 10 \<and> dt_day t = 20 \<and>
        dt_hour t = 1 \<and> dt_minute t = 38 \<and> dt_second t = 35)"
proof -
  have d: "list_all is_digit ''20191020''" "list_all is_digit ''013835''" by code_simp+
  have n: "nat_of_digits (take 4 ''20191020'') = 2019"
    "nat_of_digits (take 2 (drop 4 ''20191020'')) = 10"
    "nat_of_digits (drop 6 ''20191020'') = 20"
    "nat_of_digits (take 2 ''013835'') = 1"
    "nat_of_digits (take 2 (drop 2 ''013835'')) = 38"
    "nat_of_digits (drop 4 ''013835'') = 35"
    by code_simp+
  have v: "valid_date 2019 10 20" "valid_time 1 38 35" by code_simp+
  from hourly_window [of "''OOI-D20191020-T013835.nc''" "''20191020''" "''013835''"] d n v
  show ?thesis by simp
qed

text \<open>
  C8, as stated, is about every filename of the hourly form. The name
  \<^verbatim>\<open>OOI-D20191020-T250000.nc\<close> has the form and is classified as Hourly, but
  there is no hour 25: \<^verbatim>\<open>strptime\<close> raises a \<^verbatim>\<open>ValueError\<close>, and
  there is neither a start nor a stop.
\<close>

theorem hourly_invalid_time_counterexample:
  "is_hourly_form ''OOI-D20191020-T250000.nc'' \<and>
   parse_file_classify ''OOI-D20191020-T250000.nc'' = Inr (Hourly, Hourly_Match) \<and>
   parse_file_window Hourly Hourly_Match ''OOI-D20191020-T250000.nc'' = Inl ValueError"
  by code_simp

subsection \<open>The window of a Full echogram\<close>

lemma strptime_ymd_valid:
  assumes "length D = 8" "list_all is_digit D"
    and "valid_date (nat_of_digits (take 4 D)) (nat_of_digits (take 2 (drop 4 D)))
           (nat_of_digits (drop 6 D))"
  shows "strptime_ymd (Some D) =
     Inr \<lparr>dt_year = nat_of_digits (take 4 D), dt_month = nat_of_digits (take 2 (drop 4 D)),
          dt_day = nat_of_digits (drop 6 D), dt_hour = 0, dt_minute = 0, dt_second = 0\<rparr>"
  using assms by (simp add: strptime_ymd_def)

lemma dt_plus_one_day_ok:
  assumes "valid_date (dt_year t) (dt_month t) (dt_day t)"
    and "\<not> (dt_year t = 9999 \<and> dt_month t = 12 \<and> dt_day t = 31)"
  shows "\<exists>t'. dt_plus_one_day t = Inr t'"
  using assms by (auto simp: dt_plus_one_day_def valid_date_def days_in_month_def)

text \<open>
  C2, as amended. For every filename that the first pattern matches with the type Full
  and a date \<open>D\<close> that is a date of the calendar before 9999-12-31, the start of the
  window is the day \<open>D\<close> at midnight, the stop is the start plus one day, and among
  the names of the hourly form the pattern of the hourly files matches exactly those of
  the day \<open>D\<close>, \<^verbatim>\<open>OOI-D<D>-T<6 digits>.nc\<close>.
\<close>

theorem full_window:
  assumes "range_search echogram_filename = Some r"
    and "type_group r = Full" and "date_group r = Some D"
    and "valid_date (nat_of_digits (take 4 D)) (nat_of_digits (take 2 (drop 4 D)))
           (nat_of_digits (drop 6 D))"
    and "\<not> (nat_of_digits (take 4 D) = 9999 \<and> nat_of_digits (take 2 (drop 4 D)) = 12 \<and>
            nat_of_digits (drop 6 D) = 31)"
  shows "parse_file_classify echogram_filename = Inr (Full, Range_Match r) \<and>
     (\<exists>pat start stop.
        parse_file_window Full (Range_Match r) echogram_filename = Inr (pat, start, stop) \<and>
        start = \<lparr>dt_year = nat_of_digits (take 4 D), dt_month = nat_of_digits (take 2 (drop 4 D)),
                 dt_day = nat_of_digits (drop 6 D), dt_hour = 0, dt_minute = 0, dt_second = 0\<rparr> \<and>
        dt_plus_one_day start = Inr stop \<and>
        (\<forall>f. is_hourly_form f \<longrightarrow>
           (re_match pat f \<longleftrightarrow> (\<exists>T. f = ''OOI-D'' @ D @ ''-T'' @ T @ ''.nc''))))"
proof -
  from range_search_groups [OF assms(1)] assms(3)
  have D: "length D = 8" "list_all is_digit D" by auto
  define start where "start = \<lparr>dt_year = nat_of_digits (take 4 D),
    dt_month = nat_of_digits (take 2 (drop 4 D)), dt_day = nat_of_digits (drop 6 D),
    dt_hour = 0, dt_minute = 0, dt_second = 0\<rparr>"
  define pat where "pat = ''OOI-D'' @ D @ ''-T[0-9]{6}'' @ [CHR 0x5C] @ ''.nc''"
  have s: "strptime_ymd (Some D) = Inr start"
    unfolding start_def using D assms(4) by (rule strptime_ymd_valid)
  obtain stop where p: "dt_plus_one_day start = Inr stop"
    using dt_plus_one_day_ok [of start] assms(4,5) by (auto simp: start_def)
  have w: "parse_file_window Full (Range_Match r) echogram_filename = Inr (pat, start, stop)"
    unfolding pat_def
    using assms(3) s p by (simp add: parse_file_window_def m_group_def del: append.simps)
  have c: "parse_file_classify echogram_filename = Inr (Full, Range_Match r)"
    using assms(1,2) by (simp add: parse_file_classify_def)
  have m: "re_match pat f \<longleftrightarrow> (\<exists>T. f = ''OOI-D'' @ D @ ''-T'' @ T @ ''.nc'')"
    if h: "is_hourly_form f" for f
  proof
    assume "re_match pat f"
    then obtain T rest where T: "length T = 6"
      and f: "f = ''OOI-D'' @ D @ ''-T'' @ T @ ''.nc'' @ rest"
      unfolding pat_def re_match_full_pattern_iff [OF D(2)] by blast
    from h have "length f = 24" by (simp add: is_hourly_form_def)
    with f T D(1) have "rest = []" by simp
    with f show "\<exists>T. f = ''OOI-D'' @ D @ ''-T'' @ T @ ''.nc''" by blast
  next
    assume "\<exists>T. f = ''OOI-D'' @ D @ ''-T'' @ T @ ''.nc''"
    then obtain T where f: "f = ''OOI-D'' @ D @ ''-T'' @ T @ ''.nc''" by blast
    from h obtain D' T' where h': "length D' = 8" "length T' = 6" "list_all is_digit T'"
      "f = ''OOI-D'' @ D' @ ''-T'' @ T' @ ''.nc''"
      unfolding is_hourly_form_iff by blast
    from f h'(4) have "D @ ''-T'' @ T @ ''.nc'' = D' @ ''-T'' @ T' @ ''.nc''" by simp
    with D(1) h'(1) have "T = T'" by simp
    with h'(2,3) f show "re_match pat f"
      unfolding pat_def re_match_full_pattern_iff [OF D(2)] by (metis append_Nil2)
  qed
  from c w p m show ?thesis
    unfolding start_def [symmetric] by blast
qed

theorem full_window_witness:
  "parse_file_classify ''X_Bioacoustic_Echogram_20191020-20191027_Calibrated_Sv_Full_20191020.nc'' =
     Inr (Full, Range_Match \<lparr>start_date = ''20191020'', stop_date = ''20191027'',
                             type_group = Full, date_group = Some ''20191020''\<rparr>) \<and>
   (\<exists>pat stop.
      parse_file_window Full
        (Range_Match \<lparr>start_date = ''20191020'', stop_date = ''20191027'',
                       type_group = Full, date_group = Some ''20191020''\<rparr>)
        ''X_Bioacoustic_Echogram_20191020-20191027_Calibrated_Sv_Full_20191020.nc'' =
        Inr (pat, \<lparr>dt_year = 2019, dt_month = 10, dt_day = 20,
                   dt_hour = 0, dt_minute = 0, dt_second = 0\<rparr>, stop) \<and>
      dt_plus_one_day \<lparr>dt_year = 2019, dt_month = 10, dt_day = 20,
                       dt_hour = 0, dt_minute = 0, dt_second = 0\<rparr> = Inr stop \<and>
      (\<forall>f. is_hourly_form f \<longrightarrow>
         (re_match pat f \<longleftrightarrow> (\<exists>T. f = ''OOI-D'' @ ''20191020'' @ ''-T'' @ T @ ''.nc''))))"
proof -
  have r: "range_search ''X_Bioacoustic_Echogram_20191020-20191027_Calibrated_Sv_Full_20191020.nc'' =
    Some \<lparr>start_date = ''20191020'', stop_date = ''20191027'',
          type_group = Full, date_group = Some ''20191020''\<rparr>"
    by code_simp
  have n: "nat_of_digits (take 4 ''20191020'') = 2019"
    "nat_of_digits (take 2 (drop 4 ''20191020'')) = 10"
    "nat_of_digits (drop 6 ''20191020'') = 20"
    by code_simp+
  have v: "valid_date 2019 10 20" by code_simp
  from full_window [OF r, of "''20191020''"] n v show ?thesis by simp
qed

text \<open>
  C2, as stated, is about every date of eight digits. In
  \<^verbatim>\<open>X_Bioacoustic_Echogram_20191020-20191027_Calibrated_Sv_Full_20191399.nc\<close>
  the first pattern matches with the type Full and the date 20191399, which is no date of
  the calendar: \<^verbatim>\<open>strptime\<close> raises a \<^verbatim>\<open>ValueError\<close>, and there is
  no window.
\<close>

theorem full_invalid_date_counterexample:
  "parse_file_classify ''X_Bioacoustic_Echogram_20191020-20191027_Calibrated_Sv_Full_20191399.nc'' =
     Inr (Full, Range_Match \<lparr>start_date = ''20191020'', stop_date = ''20191027'',
                             type_group = Full, date_group = Some ''20191399''\<rparr>) \<and>
   parse_file_window Full
     (Range_Match \<lparr>start_date = ''20191020'', stop_date = ''20191027'',
                    type_group = Full, date_group = Some ''20191399''\<rparr>)
     ''X_Bioacoustic_Echogram_20191020-20191027_Calibrated_Sv_Full_20191399.nc'' = Inl ValueError"
  by code_simp

subsection \<open>No hourly file\<close>

text \<open>
  C3. When no entry of the directory both matches the pattern of the hourly files and has
  its timestamp in the interval, \<^verbatim>\<open>parse_file\<close> is to raise the
  \<^verbatim>\<open>SampleException\<close> of the missing correlation. The only entry of the
  directory \<^verbatim>\<open>/bad\<close> is \<^verbatim>\<open>OOI-D20180101-T000000.nc.bak\<close>, which is
  no hourly file and whose digits are a day long before the interval from 2019-10-20 to
  2019-10-27. The filter of line 226 hands the pattern to \<^verbatim>\<open>re.match\<close>,
  and the pattern has no anchor at its end: the entry passes, and
  \<^verbatim>\<open>strptime\<close> on line 228 refuses it for the text after
  \<^verbatim>\<open>.nc\<close>. \<^verbatim>\<open>parse_file\<close> ends with this
  \<^verbatim>\<open>ValueError\<close>, and without the entry it ends with the
  \<^verbatim>\<open>SampleException\<close>.
\<close>

theorem stray_entry_value_error:
  "listdir example_env ''/bad'' = Some [''OOI-D20180101-T000000.nc.bak''] \<and>
   \<not> is_hourly_form ''OOI-D20180101-T000000.nc.bak'' \<and>
   fst (parse_file example_env
     ''/bad/X_Bioacoustic_Echogram_20191020-20191027_Calibrated_Sv_Averaged.nc'' example_state) =
     Inl ValueError \<and>
   listdir example_env ''/none'' = Some [''readme.txt''] \<and>
   (case fst (parse_file example_env
     ''/none/X_Bioacoustic_Echogram_20191020-20191027_Calibrated_Sv_Averaged.nc'' example_state) of
      Inl (SampleException msg) \<Rightarrow> True
    | _ \<Rightarrow> False)"
  by code_simp

lemma hourly_files_of_member:
  "hourly_files_of pat ty start stop entries = Inr fs \<Longrightarrow> f \<in> set fs \<Longrightarrow>
     f \<in> set entries \<and> re_match pat f \<and>
     (ty \<noteq> Hourly \<longrightarrow> (\<exists>t. strptime_hourly f = Inr t \<and> dt_le start t \<and> dt_less t stop))"
proof (induction entries arbitrary: fs)
  case Nil
  then show ?case by simp
next
  case (Cons x xs)
  then show ?case
    by (auto split: if_splits sum.splits)
qed

end
